theory Spec2Isabelle
  imports Complex_Main "HOL-Library.Sublist" "HOL-Library.Signed_Division"
    "HOL-Library.Log_Nat"
begin

section \<open>Data model\<close>

text \<open>
  The embedding follows \<^verbatim>\<open>energyprovider2.0.cxx\<close>; where the older
  \<^verbatim>\<open>energyprovider.cxx\<close> writes the same operation differently, the older form is
  embedded too, under the suffix \<open>_v1\<close>, and shown to compute the same result.

  Conventions.
  \<^item> A \<^verbatim>\<open>double\<close> is a \<open>real\<close>, and comparisons are the exact ones, as they
    are in binary64. Where the program decides on a computed \<^verbatim>\<open>double\<close>, in
    \<^verbatim>\<open>useEnergy\<close>, the difference and the sum are rounded as binary64 rounds them, by
    \<open>fl\<close> below. The amounts of bills and the totals of the report, on which the
    program decides nothing, are the exact products and sums. Infinities and NaN are
    outside the model, except that \<open>fdiv\<close> below makes a zero divisor visible.
  \<^item> A \<^verbatim>\<open>time_t\<close> is an \<open>int\<close>, the number of seconds since the epoch. Every
    operation that calls \<^verbatim>\<open>time(nullptr)\<close> takes the reading as its argument
    \<open>now\<close>; one operation sees one reading.
  \<^item> An \<^verbatim>\<open>int\<close> that counts or indexes is an \<open>int\<close> or a \<open>nat\<close> without bound.
  \<^item> A \<^verbatim>\<open>vector\<close> is a list; \<^verbatim>\<open>push_back\<close> appends at the end.
  \<^item> A member function that mutates its object takes the object and returns the new
    one, paired with the function's result.
\<close>

datatype EnergyType = CRUDE_OIL | SOLAR | NUCLEAR | NATURAL_GAS

record Payment =
  amount :: real
  date :: int
  isPaid :: bool

text \<open>The constructor \<^verbatim>\<open>Payment(double amt)\<close>: unpaid, dated with the clock.\<close>

definition new_Payment :: "int \<Rightarrow> real \<Rightarrow> Payment" where
  "new_Payment now amt = \<lparr>amount = amt, date = now, isPaid = False\<rparr>"

text \<open>
  \<^verbatim>\<open>int getDaysSince() const { return difftime(time(nullptr), date) / (60*60*24); }\<close>
  The difference of the two times is divided by 86400 as a \<^verbatim>\<open>double\<close>, and the
  conversion to the \<^verbatim>\<open>int\<close> result drops the fraction, towards zero: \<open>sdiv\<close> is
  the integer division that rounds towards zero. (A quotient that is no whole number is
  at least 1/86400 away from one, far more than the rounding of the division, as long as
  the day count fits the \<^verbatim>\<open>int\<close>.)
\<close>

definition getDaysSince :: "int \<Rightarrow> Payment \<Rightarrow> int" where
  "getDaysSince now p = (now - date p) sdiv (60 * 60 * 24)"

definition isOverdue :: "int \<Rightarrow> Payment \<Rightarrow> bool" where
  "isOverdue now p \<longleftrightarrow> getDaysSince now p > 30 \<and> \<not> isPaid p"

record MaintRecord =
  mdate :: int
  desc :: string
  cost :: real

text \<open>
  The class \<^verbatim>\<open>Customer\<close>. The field \<^verbatim>\<open>id\<close> is \<open>cid\<close> here, since \<open>id\<close> is
  the identity function of HOL.
\<close>

record Customer =
  cid :: int
  name :: string
  province :: string
  email :: string
  address :: string
  energyType :: EnergyType
  allocated :: real
  used :: real
  payments :: "Payment list"
  reminderSent :: bool
  maintenance :: "MaintRecord list"

text \<open>The constructor: no usage, no bills, no reminder sent, no maintenance.\<close>

definition new_Customer ::
  "int \<Rightarrow> string \<Rightarrow> string \<Rightarrow> string \<Rightarrow> string \<Rightarrow> EnergyType \<Rightarrow> real \<Rightarrow> Customer" where
  "new_Customer i nm prov mail addr ty alloc =
     \<lparr>cid = i, name = nm, province = prov, email = mail, address = addr,
      energyType = ty, allocated = alloc, used = 0, payments = [],
      reminderSent = False, maintenance = []\<rparr>"

section \<open>Rounding of binary64\<close>

text \<open>
  A \<^verbatim>\<open>double\<close> operation gives the binary64 number nearest to the exact result, and
  of two that are equally near the one with the even last digit.

  \<open>rne\<close> rounds to the nearest integer, a tie to the even one. \<open>binade x\<close> is the
  exponent \<open>e\<close> with \<open>2^e \<le> |x| < 2^(e+1)\<close>, read off the number of binary digits
  (\<open>bitlen\<close>) of the integer part of \<open>|x|\<close>, or of \<open>1/|x|\<close> when \<open>|x| < 1\<close>. A binary64 number
  has 53 digits, so the last digit of a number in that binade is worth \<open>2^(e-52)\<close>,
  and never less than \<open>2^(-1074)\<close>, the step of the subnormal numbers. \<open>fl x\<close> is
  the multiple of this step that is nearest to \<open>x\<close>. A result of \<open>2^1024\<close> or more,
  where binary64 has an infinity, is outside the model.
\<close>

definition rne :: "real \<Rightarrow> int" where
  "rne x = (let f = \<lfloor>x\<rfloor>; d = x - of_int f
            in if d < 1 / 2 then f else if 1 / 2 < d then f + 1
               else if even f then f else f + 1)"

definition binade :: "real \<Rightarrow> int" where
  "binade x = (if 1 \<le> \<bar>x\<bar> then bitlen \<lfloor>\<bar>x\<bar>\<rfloor> - 1
               else - bitlen (\<lceil>1 / \<bar>x\<bar>\<rceil> - 1))"

definition fl :: "real \<Rightarrow> real" where
  "fl x = (if x = 0 then 0
           else let q = max (binade x - 52) (- 1074)
                in of_int (rne (x / 2 powi q)) * 2 powi q)"

section \<open>Customer operations\<close>

text \<open>
  \<^verbatim>\<open>bool useEnergy(double amt) {
      if (amt <= allocated - used) { used += amt; return true; }
      return false; }\<close>
  The test compares \<^verbatim>\<open>amt\<close> with the rounded difference, and the update stores
  the rounded sum.
\<close>

definition useEnergy :: "real \<Rightarrow> Customer \<Rightarrow> bool \<times> Customer" where
  "useEnergy amt c =
     (if amt \<le> fl (allocated c - used c) then (True, c\<lparr>used := fl (used c + amt)\<rparr>)
      else (False, c))"

text \<open>The older file tests against \<^verbatim>\<open>getEnergyLeft()\<close>.\<close>

definition getEnergyLeft :: "Customer \<Rightarrow> real" where
  "getEnergyLeft c = fl (allocated c - used c)"

definition useEnergy_v1 :: "real \<Rightarrow> Customer \<Rightarrow> bool \<times> Customer" where
  "useEnergy_v1 amt c =
     (if amt \<le> getEnergyLeft c then (True, c\<lparr>used := fl (used c + amt)\<rparr>)
      else (False, c))"



text \<open>
  \<^verbatim>\<open>void createBill(double rate) {
      payments.push_back(Payment(used * rate));
      used = 0; }\<close>
\<close>

definition createBill :: "int \<Rightarrow> real \<Rightarrow> Customer \<Rightarrow> Customer" where
  "createBill now rate c =
     c\<lparr>payments := payments c @ [new_Payment now (used c * rate)], used := 0\<rparr>"

text \<open>
  \<^verbatim>\<open>bool makePayment(int index, double amt) {
      if (index >= 0 && index < payments.size() && amt >= payments[index].amount) {
          payments[index].isPaid = true;
          reminderSent = false;
          return true; }
      return false; }\<close>
  The index is a signed \<^verbatim>\<open>int\<close>; once it is known to be non-negative, its comparison
  with the unsigned size is the comparison of the two numbers.
\<close>

definition makePayment :: "int \<Rightarrow> real \<Rightarrow> Customer \<Rightarrow> bool \<times> Customer" where
  "makePayment index amt c =
     (if index \<ge> 0 \<and> index < int (length (payments c))
         \<and> amt \<ge> amount (payments c ! nat index)
      then (True, c\<lparr>payments := (payments c)[nat index := (payments c ! nat index)\<lparr>isPaid := True\<rparr>],
                     reminderSent := False\<rparr>)
      else (False, c))"

text \<open>The older file nests the test of the amount inside the test of the index.\<close>

definition makePayment_v1 :: "int \<Rightarrow> real \<Rightarrow> Customer \<Rightarrow> bool \<times> Customer" where
  "makePayment_v1 billIndex amt c =
     (if billIndex \<ge> 0 \<and> billIndex < int (length (payments c)) then
        (if amt \<ge> amount (payments c ! nat billIndex)
         then (True, c\<lparr>payments := (payments c)[nat billIndex :=
                                        (payments c ! nat billIndex)\<lparr>isPaid := True\<rparr>],
                        reminderSent := False\<rparr>)
         else (False, c))
      else (False, c))"

text \<open>\<^verbatim>\<open>void addMaintenance(string desc, double cost)\<close>\<close>

definition addMaintenance :: "int \<Rightarrow> string \<Rightarrow> real \<Rightarrow> Customer \<Rightarrow> Customer" where
  "addMaintenance now d k c =
     c\<lparr>maintenance := maintenance c @ [\<lparr>mdate = now, desc = d, cost = k\<rparr>]\<rparr>"



text \<open>
  \<^verbatim>\<open>bool hasOverdue() const {
      for (auto& p : payments) if (p.isOverdue()) return true;
      return false; }\<close>
\<close>

fun hasOverdue_loop :: "int \<Rightarrow> Payment list \<Rightarrow> bool" where
  "hasOverdue_loop now [] = False"
| "hasOverdue_loop now (p # ps) = (if isOverdue now p then True else hasOverdue_loop now ps)"

definition hasOverdue :: "int \<Rightarrow> Customer \<Rightarrow> bool" where
  "hasOverdue now c = hasOverdue_loop now (payments c)"

text \<open>
  The reminder writes into a \<^verbatim>\<open>stringstream\<close>. Three renderings belong to the C++
  library and not to this program: \<^verbatim>\<open>strftime\<close> with \<^verbatim>\<open>"%Y-%m-%d"\<close> on the local
  time (it depends on the time zone), a \<^verbatim>\<open>double\<close> under
  \<^verbatim>\<open>fixed << setprecision(2)\<close>, and an \<^verbatim>\<open>int\<close> in decimal. The first two are
  parameters of the model; the third is \<open>to_string\<close>, which \<^verbatim>\<open>findCustomers\<close> needs
  as well.
\<close>

record Formatters =
  strftime_Ymd :: "int \<Rightarrow> string"
  fixed_setprecision2 :: "real \<Rightarrow> string"

definition formatDate :: "Formatters \<Rightarrow> Payment \<Rightarrow> string" where
  "formatDate F p = strftime_Ymd F (date p)"

fun digits :: "nat \<Rightarrow> string" where
  "digits n = (if n < 10 then [''0123456789'' ! n]
               else digits (n div 10) @ [''0123456789'' ! (n mod 10)])"

declare digits.simps [simp del]

definition to_string :: "int \<Rightarrow> string" where
  "to_string i = (if i < 0 then ''-'' @ digits (nat (- i)) else digits (nat i))"

text \<open>
  The body of the loop of \<^verbatim>\<open>sendReminder\<close>: one line for a bill that is overdue,
  nothing for any other bill.
  \<^verbatim>\<open>email << "Bill from " << p.formatDate()
        << " - Amount: $" << fixed << setprecision(2) << p.amount
        << " - " << p.getDaysSince() - 30 << " days overdue\n";\<close>
\<close>

definition reminderLine :: "Formatters \<Rightarrow> int \<Rightarrow> Payment \<Rightarrow> string" where
  "reminderLine F now p =
     ''Bill from '' @ formatDate F p
     @ '' - Amount: $'' @ fixed_setprecision2 F (amount p)
     @ '' - '' @ to_string (getDaysSince now p - 30) @ '' days overdue\<newline>''"

fun sendReminder_loop :: "Formatters \<Rightarrow> int \<Rightarrow> Payment list \<Rightarrow> string \<Rightarrow> string" where
  "sendReminder_loop F now [] em = em"
| "sendReminder_loop F now (p # ps) em =
     sendReminder_loop F now ps (if isOverdue now p then em @ reminderLine F now p else em)"

definition reminderHeader :: "Customer \<Rightarrow> string" where
  "reminderHeader c =
     ''To: '' @ email c @ ''\<newline>''
     @ ''Subject: Your energy payment is overdue\<newline>\<newline>''
     @ ''Hi '' @ name c @ '',\<newline>\<newline>''
     @ ''Just a reminder that you have unpaid bills that are now overdue:\<newline>\<newline>''"

definition reminderFooter :: string where
  "reminderFooter =
     ''\<newline>Please pay ASAP to avoid service interruption.\<newline>\<newline>''
     @ ''Thanks,\<newline>Customer Service Team''"

text \<open>
  \<^verbatim>\<open>string sendReminder() {
      if (hasOverdue() && !reminderSent) {
          reminderSent = true;
          stringstream email;
          email << (header);
          for (auto& p : payments) if (p.isOverdue()) email << (line of p);
          email << (footer);
          return email.str(); }
      return ""; }\<close>
\<close>

definition sendReminder :: "Formatters \<Rightarrow> int \<Rightarrow> Customer \<Rightarrow> string \<times> Customer" where
  "sendReminder F now c =
     (if hasOverdue now c \<and> \<not> reminderSent c then
        (let c' = c\<lparr>reminderSent := True\<rparr>;
             em = reminderHeader c';
             em = sendReminder_loop F now (payments c') em;
             em = em @ reminderFooter
         in (em, c'))
      else ([], c))"

section \<open>The system\<close>

record ImportExport =
  etype :: EnergyType
  quantity :: real
  price :: real
  isImport :: bool
  tdate :: int

definition getValue :: "ImportExport \<Rightarrow> real" where
  "getValue t = quantity t * price t"

text \<open>
  The class \<^verbatim>\<open>EnergySystem\<close>. The two \<^verbatim>\<open>std::map\<close>s are maps of HOL; the
  indices that \<^verbatim>\<open>provinces\<close> stores are positions in \<^verbatim>\<open>customers\<close>. The random
  generator only serves \<^verbatim>\<open>createTestData\<close> and is left out.
\<close>

record EnergySystem =
  customers :: "Customer list"
  provinces :: "string \<rightharpoonup> nat list"
  rates :: "EnergyType \<rightharpoonup> real"
  trades :: "ImportExport list"

definition new_EnergySystem :: EnergySystem where
  "new_EnergySystem =
     \<lparr>customers = [], provinces = Map.empty,
      rates = [CRUDE_OIL \<mapsto> 1.25, SOLAR \<mapsto> 0.18, NUCLEAR \<mapsto> 0.22, NATURAL_GAS \<mapsto> 0.85],
      trades = []\<rparr>"

text \<open>
  \<^verbatim>\<open>operator[]\<close> of a \<^verbatim>\<open>std::map\<close>: a key that is absent is first entered with the
  value-initialised element, an empty vector or 0.0.
\<close>

definition provinces_index :: "(string \<rightharpoonup> nat list) \<Rightarrow> string \<Rightarrow> nat list" where
  "provinces_index m k = (case m k of None \<Rightarrow> [] | Some ids \<Rightarrow> ids)"

definition rates_index ::
  "(EnergyType \<rightharpoonup> real) \<Rightarrow> EnergyType \<Rightarrow> real \<times> (EnergyType \<rightharpoonup> real)" where
  "rates_index m t = (case m t of None \<Rightarrow> (0, m(t \<mapsto> 0)) | Some r \<Rightarrow> (r, m))"

text \<open>
  \<^verbatim>\<open>void addCustomer(const Customer& c) {
      customers.push_back(c);
      provinces[c.getProvince()].push_back(customers.size() - 1); }\<close>
\<close>

definition addCustomer :: "Customer \<Rightarrow> EnergySystem \<Rightarrow> EnergySystem" where
  "addCustomer c sys =
     (let cs = customers sys @ [c]
      in sys\<lparr>customers := cs,
              provinces := (provinces sys)(province c \<mapsto>
                 provinces_index (provinces sys) (province c) @ [length cs - 1])\<rparr>)"

text \<open>A sequence of \<^verbatim>\<open>addCustomer\<close> calls, in the order of the list.\<close>

fun addCustomers :: "Customer list \<Rightarrow> EnergySystem \<Rightarrow> EnergySystem" where
  "addCustomers [] sys = sys"
| "addCustomers (c # cs) sys = addCustomers cs (addCustomer c sys)"

text \<open>
  \<^verbatim>\<open>void doBilling() {
      for (auto& c : customers)
          if (c.getUsed() > 0)
              c.createBill(rates[c.getEnergyType()]); }\<close>
  The loop carries the rate table along, since \<^verbatim>\<open>rates[...]\<close> may write to it.
\<close>

fun doBilling_loop ::
  "int \<Rightarrow> (EnergyType \<rightharpoonup> real) \<Rightarrow> Customer list \<Rightarrow> (EnergyType \<rightharpoonup> real) \<times> Customer list" where
  "doBilling_loop now r [] = (r, [])"
| "doBilling_loop now r (c # cs) =
     (if used c > 0 then
        (let (rate, r') = rates_index r (energyType c);
             c' = createBill now rate c;
             (r'', cs') = doBilling_loop now r' cs
         in (r'', c' # cs'))
      else
        (let (r'', cs') = doBilling_loop now r cs
         in (r'', c # cs')))"

definition doBilling :: "int \<Rightarrow> EnergySystem \<Rightarrow> EnergySystem" where
  "doBilling now sys =
     (let (r, cs) = doBilling_loop now (rates sys) (customers sys)
      in sys\<lparr>customers := cs, rates := r\<rparr>)"

text \<open>
  The older file reads the rate of every customer before it tests the usage:
  \<^verbatim>\<open>for (auto& customer : customers) {
      double rate = energyRates[customer.getEnergyType()];
      if (customer.getCurrentUsage() > 0) customer.createBill(rate); }\<close>
\<close>

fun doBilling_loop_v1 ::
  "int \<Rightarrow> (EnergyType \<rightharpoonup> real) \<Rightarrow> Customer list \<Rightarrow> (EnergyType \<rightharpoonup> real) \<times> Customer list" where
  "doBilling_loop_v1 now r [] = (r, [])"
| "doBilling_loop_v1 now r (c # cs) =
     (let (rate, r') = rates_index r (energyType c);
          c' = (if used c > 0 then createBill now rate c else c);
          (r'', cs') = doBilling_loop_v1 now r' cs
      in (r'', c' # cs'))"

definition doBilling_v1 :: "int \<Rightarrow> EnergySystem \<Rightarrow> EnergySystem" where
  "doBilling_v1 now sys =
     (let (r, cs) = doBilling_loop_v1 now (rates sys) (customers sys)
      in sys\<lparr>customers := cs, rates := r\<rparr>)"

text \<open>
  \<^verbatim>\<open>std::string::find\<close> with one argument: the first position at which the argument
  occurs, or \<^verbatim>\<open>npos\<close> (here \<open>None\<close>). The empty string occurs at position 0 of every
  string.
\<close>

fun str_find :: "string \<Rightarrow> string \<Rightarrow> nat option" where
  "str_find [] q = (if q = [] then Some 0 else None)"
| "str_find (x # xs) q =
     (if prefix q (x # xs) then Some 0 else map_option Suc (str_find xs q))"

text \<open>
  \<^verbatim>\<open>vector<Customer*> findCustomers(const string& query, const string& prov = "") {
      vector<Customer*> results;
      for (auto& c : customers) {
          if (!prov.empty() && c.getProvince() != prov) continue;
          if (to_string(c.getID()).find(query) != string::npos ||
              c.getName().find(query) != string::npos ||
              c.getEmail().find(query) != string::npos)
              results.push_back(&c); }
      return results; }\<close>
  A result is a pointer to an element of \<^verbatim>\<open>customers\<close>: the model returns the
  position of the element, and the loop counts the positions in \<open>i\<close>.
\<close>

fun findCustomers_loop ::
  "string \<Rightarrow> string \<Rightarrow> nat \<Rightarrow> Customer list \<Rightarrow> nat list \<Rightarrow> nat list" where
  "findCustomers_loop query prov i [] results = results"
| "findCustomers_loop query prov i (c # cs) results =
     (if prov \<noteq> [] \<and> province c \<noteq> prov then
        findCustomers_loop query prov (Suc i) cs results
      else if str_find (to_string (cid c)) query \<noteq> None
              \<or> str_find (name c) query \<noteq> None
              \<or> str_find (email c) query \<noteq> None then
        findCustomers_loop query prov (Suc i) cs (results @ [i])
      else
        findCustomers_loop query prov (Suc i) cs results)"

definition findCustomers :: "string \<Rightarrow> string \<Rightarrow> EnergySystem \<Rightarrow> nat list" where
  "findCustomers query prov sys = findCustomers_loop query prov 0 (customers sys) []"

text \<open>
  The condition of the specification for one customer: the province filter is empty or
  is the province of the customer, and the query occurs in the decimal rendering of the
  ID, in the name or in the email. \<open>sublist q s\<close> says that \<open>q\<close> occurs in \<open>s\<close>
  as a contiguous piece. This definition follows the words of the specification; the
  lemma \<open>spec_matches_code\<close> below compares it with the test that the loop makes.
\<close>

definition spec_matches :: "string \<Rightarrow> string \<Rightarrow> Customer \<Rightarrow> bool" where
  "spec_matches query prov c \<longleftrightarrow>
     (prov = [] \<or> province c = prov)
     \<and> (sublist query (to_string (cid c)) \<or> sublist query (name c) \<or> sublist query (email c))"

section \<open>Percentages of the report and of the statistics\<close>












section \<open>Example data\<close>

text \<open>
  The customer and the bill of the scenarios of the specification: an allocation of 500
  units of solar energy, and a bill of 54.00.
\<close>

definition example_customer :: Customer where
  "example_customer =
     new_Customer 1001 ''John Smith'' ''Ontario'' ''jsmith@email.com''
       ''12 Howard Ave, Ontario'' SOLAR 500"

definition example_bill :: "int \<Rightarrow> Payment" where
  "example_bill issued = \<lparr>amount = 54, date = issued, isPaid = False\<rparr>"

text \<open>
  The customer after a usage of 300 and a bill at 0.18, issued at time 1000; the same
  customer after a second usage of 300 and a second bill, issued at time 2000;
  renderings that stand for those of the library; and the customer with two bills after
  the first was paid and, at time 3000000, a reminder was sent for the second.
\<close>

definition example_billed :: Customer where
  "example_billed = createBill 1000 0.18 (snd (useEnergy 300 example_customer))"

definition example_two_bills :: Customer where
  "example_two_bills =
     createBill 2000 0.18 (snd (useEnergy 300
       (createBill 1000 0.18 (snd (useEnergy 300 example_customer)))))"

definition example_formatters :: Formatters where
  "example_formatters =
     \<lparr>strftime_Ymd = (\<lambda>t. ''1970-01-01''), fixed_setprecision2 = (\<lambda>x. ''54.00'')\<rparr>"

definition example_paid_latched :: Customer where
  "example_paid_latched =
     snd (sendReminder example_formatters 3000000 (snd (makePayment 0 54 example_two_bills)))"

text \<open>
  Systems: one customer whose usage went below 0; one customer whose email, and not whose
  name, contains "Smith"; a customer with usage and one without; two customers of one
  province, one of them with overdue bills; three customers for the search.
\<close>

definition negative_usage_system :: EnergySystem where
  "negative_usage_system =
     addCustomer (snd (useEnergy (- 5) example_customer)) new_EnergySystem"

definition smith_email_system :: EnergySystem where
  "smith_email_system =
     addCustomer (new_Customer 1002 ''Jane Jones'' ''Quebec'' ''Smith@email.com''
                    ''7 Walker Rd, Quebec'' NUCLEAR 400) new_EnergySystem"

definition example_system :: EnergySystem where
  "example_system =
     addCustomer example_customer
       (addCustomer (snd (useEnergy 300 example_customer)) new_EnergySystem)"


definition search_system :: EnergySystem where
  "search_system =
     addCustomers
       [example_customer,
        new_Customer 1002 ''Jane Jones'' ''Quebec'' ''Smith@email.com''
          ''7 Walker Rd, Quebec'' NUCLEAR 400,
        new_Customer 1003 ''Mike Brown'' ''Ontario'' ''mbrown@email.com''
          ''3 Lauzon Rd, Ontario'' CRUDE_OIL 300]
       new_EnergySystem"

text \<open>
  A customer whose allocation is the \<^verbatim>\<open>double\<close> that the literal \<^verbatim>\<open>250.1\<close>
  denotes, and the same customer after \<^verbatim>\<open>useEnergy(50.3)\<close> and
  \<^verbatim>\<open>useEnergy(199.8)\<close>; a customer with the allocation -10.
\<close>

definition rounding_customer :: Customer where
  "rounding_customer =
     new_Customer 1004 ''Emily Brown'' ''Alberta'' ''ebrown@email.com''
       ''40 Dougall Ave, Alberta'' NATURAL_GAS (fl 250.1)"

definition rounded_customer :: Customer where
  "rounded_customer =
     snd (useEnergy (fl 199.8) (snd (useEnergy (fl 50.3) rounding_customer)))"

definition negative_allocation_customer :: Customer where
  "negative_allocation_customer =
     new_Customer 1005 ''Dave Jones'' ''Manitoba'' ''djones@email.com''
       ''9 Lauzon Rd, Manitoba'' SOLAR (- 10)"

section \<open>Shared lemmas\<close>

lemma rne_nonneg: "0 \<le> y \<Longrightarrow> 0 \<le> rne y"
  by (auto simp: rne_def Let_def)

lemma rne_le_floor_plus_one: "rne y \<le> \<lfloor>y\<rfloor> + 1"
  by (simp add: rne_def Let_def)

lemma rne_le_minus_one:
  assumes "y \<le> - 1"
  shows "rne y \<le> - 1"
proof -
  from assms have f: "\<lfloor>y\<rfloor> \<le> - 1" by (simp add: floor_le_iff)
  show ?thesis
  proof (cases "y = of_int \<lfloor>y\<rfloor>")
    case True
    then have "y - of_int \<lfloor>y\<rfloor> < 1 / 2" by simp
    with f show ?thesis by (simp add: rne_def Let_def)
  next
    case False
    then have "of_int \<lfloor>y\<rfloor> < y" using of_int_floor_le [of y] by linarith
    with assms have "real_of_int \<lfloor>y\<rfloor> < - 1" by linarith
    then have "\<lfloor>y\<rfloor> \<le> - 2" by linarith
    with rne_le_floor_plus_one [of y] show ?thesis by linarith
  qed
qed

text \<open>From 1 on, the binade is not negative and its power of 2 is below the number.\<close>

lemma binade_lower:
  assumes "1 \<le> \<bar>x\<bar>"
  shows "0 \<le> binade x" and "2 powi binade x \<le> \<bar>x\<bar>"
proof -
  let ?n = "\<lfloor>\<bar>x\<bar>\<rfloor>"
  from assms have n: "0 < ?n" by simp
  from bitlen_bounds [OF n]
  have b: "2 ^ nat (bitlen ?n - 1) \<le> ?n" by simp
  from n have l: "1 \<le> bitlen ?n"
    using bitlen_eq_zero_iff [of ?n] bitlen_nonneg [of ?n] by linarith
  have eq: "binade x = bitlen ?n - 1"
    using assms by (simp add: binade_def)
  show "0 \<le> binade x" using l by (simp add: eq)
  have "(2::real) powi binade x = 2 ^ nat (bitlen ?n - 1)"
    using l by (simp add: eq power_int_def)
  also have "\<dots> = real_of_int (2 ^ nat (bitlen ?n - 1))" by simp
  also have "\<dots> \<le> real_of_int ?n" using b by (simp only: of_int_le_iff)
  also have "\<dots> \<le> \<bar>x\<bar>" by simp
  finally show "2 powi binade x \<le> \<bar>x\<bar>" .
qed

lemma fl_nonneg: "0 \<le> x \<Longrightarrow> 0 \<le> fl x"
  by (simp add: fl_def Let_def rne_nonneg)

lemma fl_negative:
  assumes "x \<le> - 1"
  shows "fl x < 0"
proof -
  define q where "q = max (binade x - 52) (- 1074)"
  from assms have a: "1 \<le> \<bar>x\<bar>" by simp
  have "q \<le> binade x"
    using binade_lower(1) [OF a] by (simp add: q_def)
  then have "(2::real) powi q \<le> 2 powi binade x"
    by (simp add: power_int_increasing)
  also have "\<dots> \<le> \<bar>x\<bar>" by (rule binade_lower(2) [OF a])
  finally have "2 powi q \<le> - x" using assms by simp
  moreover have p: "(0::real) < 2 powi q" by simp
  ultimately have "x / 2 powi q \<le> - 1"
    by (simp add: field_simps)
  then have "rne (x / 2 powi q) \<le> - 1" by (rule rne_le_minus_one)
  then have "real_of_int (rne (x / 2 powi q)) \<le> - 1" by linarith
  with p have "real_of_int (rne (x / 2 powi q)) * 2 powi q < 0"
    by (simp add: mult_less_0_iff)
  moreover have "fl x = real_of_int (rne (x / 2 powi q)) * 2 powi q"
    using assms by (simp add: fl_def q_def Let_def)
  ultimately show ?thesis by simp
qed

text \<open>The whole numbers of the examples are binary64 numbers.\<close>

lemma fl_values:
  "fl 500 = 500" "fl 600 = 600" "fl 300 = 300" "fl 200 = 200" "fl 550 = 550"
  "fl (- 5) = - 5" "fl (- 10) = - 10"
  by code_simp+

text \<open>
  The three literals of the rounding example, and the two operations on them that
  round: both results lie halfway between two binary64 numbers.
\<close>

lemma fl_literals:
  "fl 250.1 = 8799611459416883 / 2 ^ 45"
  "fl 50.3 = 7079095664272998 / 2 ^ 47"
  "fl 199.8 = 7029837543348634 / 2 ^ 45"
  by code_simp+

lemma fl_rounding_example:
  "fl (8799611459416883 / 2 ^ 45) = 8799611459416883 / 2 ^ 45"
  "fl (7079095664272998 / 2 ^ 47) = 7079095664272998 / 2 ^ 47"
  "fl (8799611459416883 / 2 ^ 45 - 7079095664272998 / 2 ^ 47) = 7029837543348634 / 2 ^ 45"
  "fl (7079095664272998 / 2 ^ 47 + 7029837543348634 / 2 ^ 45) = 8799611459416884 / 2 ^ 45"
  "fl (8799611459416883 / 2 ^ 45 - 8799611459416884 / 2 ^ 45) = - 1 / 2 ^ 45"
  by code_simp+

lemma useEnergy_v1_eq: "useEnergy_v1 amt c = useEnergy amt c"
  by (simp add: useEnergy_v1_def useEnergy_def getEnergyLeft_def)

lemma makePayment_v1_eq: "makePayment_v1 i amt c = makePayment i amt c"
  by (simp add: makePayment_v1_def makePayment_def)





lemma makePayment_fst:
  "fst (makePayment i amt c) \<longleftrightarrow>
     0 \<le> i \<and> i < int (length (payments c)) \<and> amt \<ge> amount (payments c ! nat i)"
  by (simp add: makePayment_def)

lemma makePayment_fail: "\<not> fst (makePayment i amt c) \<Longrightarrow> snd (makePayment i amt c) = c"
  by (auto simp: makePayment_def)

lemma makePayment_ok:
  "fst (makePayment i amt c) \<Longrightarrow>
     snd (makePayment i amt c) =
       c\<lparr>payments := (payments c)[nat i := (payments c ! nat i)\<lparr>isPaid := True\<rparr>],
         reminderSent := False\<rparr>"
  by (simp add: makePayment_def split: if_splits)

text \<open>
  For a time that is not before the date of the bill, rounding towards zero is rounding
  down.
\<close>

lemma sdiv_nonneg_floor:
  fixes d :: int
  assumes "0 \<le> d"
  shows "d sdiv (60 * 60 * 24) = \<lfloor>real_of_int d / 86400\<rfloor>"
proof -
  have "d sdiv (60 * 60 * 24) = d div 86400"
    using assms by (simp add: signed_divide_int_def sgn_if)
  also have "\<dots> = \<lfloor>real_of_int d / real_of_int 86400\<rfloor>"
    by (simp only: floor_divide_of_int_eq)
  finally show ?thesis by simp
qed

lemma getDaysSince_floor:
  "date p \<le> now \<Longrightarrow> getDaysSince now p = \<lfloor>real_of_int (now - date p) / 86400\<rfloor>"
  unfolding getDaysSince_def by (rule sdiv_nonneg_floor) simp

lemma example_billed_eq:
  "example_billed = example_customer\<lparr>payments := [example_bill 1000]\<rparr>"
  by (simp add: example_billed_def example_customer_def new_Customer_def useEnergy_def fl_values
      createBill_def new_Payment_def example_bill_def)

lemma example_two_bills_eq:
  "example_two_bills = example_customer\<lparr>payments := [example_bill 1000, example_bill 2000]\<rparr>"
  by (simp add: example_two_bills_def example_customer_def new_Customer_def useEnergy_def fl_values
      createBill_def new_Payment_def example_bill_def)

lemma example_paid_latched_eq:
  "example_paid_latched =
     example_customer\<lparr>payments := [(example_bill 1000)\<lparr>isPaid := True\<rparr>, example_bill 2000],
                      reminderSent := True\<rparr>"
  by (simp add: example_paid_latched_def example_two_bills_eq example_customer_def
      new_Customer_def example_bill_def makePayment_def sendReminder_def hasOverdue_def
      isOverdue_def getDaysSince_def signed_divide_int_def Let_def)

lemma hasOverdue_loop_iff: "hasOverdue_loop now ps \<longleftrightarrow> (\<exists>p \<in> set ps. isOverdue now p)"
  by (induction ps) auto

lemma hasOverdue_iff: "hasOverdue now c \<longleftrightarrow> (\<exists>p \<in> set (payments c). isOverdue now p)"
  by (simp add: hasOverdue_def hasOverdue_loop_iff)

lemma sendReminder_loop_eq:
  "sendReminder_loop F now ps em =
     em @ concat (map (reminderLine F now) (filter (isOverdue now) ps))"
  by (induction ps arbitrary: em) simp_all

lemma reminderHeader_nonempty: "reminderHeader c \<noteq> []"
  by (simp add: reminderHeader_def)

lemma sendReminder_sent:
  "hasOverdue now c \<and> \<not> reminderSent c \<Longrightarrow>
     sendReminder F now c =
       (reminderHeader c
          @ concat (map (reminderLine F now) (filter (isOverdue now) (payments c)))
          @ reminderFooter,
        c\<lparr>reminderSent := True\<rparr>)"
  by (simp add: sendReminder_def sendReminder_loop_eq reminderHeader_def)

lemma sendReminder_silent:
  "\<not> (hasOverdue now c \<and> \<not> reminderSent c) \<Longrightarrow> sendReminder F now c = ([], c)"
  by (auto simp: sendReminder_def)

lemma sendReminder_text_iff:
  "fst (sendReminder F now c) \<noteq> [] \<longleftrightarrow> hasOverdue now c \<and> \<not> reminderSent c"
proof (cases "hasOverdue now c \<and> \<not> reminderSent c")
  case True
  then show ?thesis
    by (simp add: sendReminder_sent reminderHeader_nonempty)
next
  case False
  then show ?thesis
    using sendReminder_silent [OF False, of F] by simp
qed

lemma sendReminder_again:
  assumes "fst (sendReminder F now c) \<noteq> []"
  shows "sendReminder F now' (snd (sendReminder F now c)) = ([], snd (sendReminder F now c))"
proof -
  from assms have "hasOverdue now c \<and> \<not> reminderSent c"
    by (simp add: sendReminder_text_iff)
  then have "reminderSent (snd (sendReminder F now c))"
    by (simp add: sendReminder_sent)
  then show ?thesis
    by (simp add: sendReminder_silent)
qed

lemma isPaid_update_id: "isPaid p \<Longrightarrow> p\<lparr>isPaid := True\<rparr> = p"
  by simp

lemma rates_index_twice:
  "fst (rates_index (snd (rates_index m t')) t) = fst (rates_index m t)"
  by (simp add: rates_index_def split: option.splits)

lemma doBilling_loop_customers:
  "snd (doBilling_loop now r cs) =
     map (\<lambda>c. if used c > 0 then createBill now (fst (rates_index r (energyType c))) c else c) cs"
proof (induction cs arbitrary: r)
  case Nil
  then show ?case by simp
next
  case (Cons c cs)
  show ?case
  proof (cases "used c > 0")
    case True
    then show ?thesis
      by (simp add: Cons.IH split_beta Let_def rates_index_twice)
  next
    case False
    then show ?thesis
      by (simp add: Cons.IH split_beta Let_def)
  qed
qed

lemma doBilling_loop_v1_customers:
  "snd (doBilling_loop_v1 now r cs) =
     map (\<lambda>c. if used c > 0 then createBill now (fst (rates_index r (energyType c))) c else c) cs"
proof (induction cs arbitrary: r)
  case Nil
  then show ?case by simp
next
  case (Cons c cs)
  show ?case
    by (simp add: Cons.IH split_beta Let_def rates_index_twice)
qed

lemma doBilling_customers:
  "customers (doBilling now sys) =
     map (\<lambda>c. if used c > 0
               then createBill now (fst (rates_index (rates sys) (energyType c))) c else c)
         (customers sys)"
  by (simp add: doBilling_def split_beta Let_def doBilling_loop_customers)

lemma doBilling_v1_customers:
  "customers (doBilling_v1 now sys) = customers (doBilling now sys)"
  by (simp add: doBilling_v1_def doBilling_def split_beta Let_def doBilling_loop_customers
      doBilling_loop_v1_customers)

lemma doBilling_other:
  "provinces (doBilling now sys) = provinces sys \<and> trades (doBilling now sys) = trades sys"
  by (simp add: doBilling_def split_beta Let_def)

lemma str_find_sublist: "str_find s q \<noteq> None \<longleftrightarrow> sublist q s"
  by (induction s) (auto simp: sublist_Cons_right)

lemma str_find_None: "str_find s q = None \<longleftrightarrow> \<not> sublist q s"
  using str_find_sublist [of s q] by blast

lemma str_find_Some: "(\<exists>y. str_find s q = Some y) \<longleftrightarrow> sublist q s"
  using str_find_sublist [of s q] by auto

lemma spec_matches_code:
  "spec_matches query prov c \<longleftrightarrow>
     \<not> (prov \<noteq> [] \<and> province c \<noteq> prov)
     \<and> (str_find (to_string (cid c)) query \<noteq> None
        \<or> str_find (name c) query \<noteq> None
        \<or> str_find (email c) query \<noteq> None)"
  unfolding spec_matches_def str_find_sublist by blast

lemma findCustomers_loop_eq:
  "findCustomers_loop query prov i cs results =
     results @ map fst (filter (\<lambda>(j, c). spec_matches query prov c) (List.enumerate i cs))"
proof (induction cs arbitrary: i results)
  case Nil
  then show ?case by simp
next
  case (Cons c cs)
  let ?skip = "prov \<noteq> [] \<and> province c \<noteq> prov"
  let ?hit = "str_find (to_string (cid c)) query \<noteq> None
        \<or> str_find (name c) query \<noteq> None
        \<or> str_find (email c) query \<noteq> None"
  have step: "findCustomers_loop query prov i (c # cs) results =
      findCustomers_loop query prov (Suc i) cs
        (if spec_matches query prov c then results @ [i] else results)"
  proof (cases ?skip)
    case True
    then have "\<not> spec_matches query prov c" unfolding spec_matches_code by blast
    with True show ?thesis by simp
  next
    case False
    then have "spec_matches query prov c \<longleftrightarrow> ?hit" unfolding spec_matches_code by blast
    with False show ?thesis by auto
  qed
  show ?case
    unfolding step by (simp add: Cons.IH)
qed

lemma enumerate_filter:
  "map fst (filter (\<lambda>(j, c). P c) (List.enumerate 0 cs)) =
     filter (\<lambda>j. P (cs ! j)) [0..<length cs]"
proof (induction cs rule: rev_induct)
  case Nil
  then show ?case by simp
next
  case (snoc x xs)
  have "filter (\<lambda>j. P ((xs @ [x]) ! j)) [0..<length xs] = filter (\<lambda>j. P (xs ! j)) [0..<length xs]"
    by (rule filter_cong [OF refl]) (simp add: nth_append)
  then show ?case
    by (simp add: enumerate_append_eq snoc.IH)
qed

lemma findCustomers_eq:
  "findCustomers query prov sys =
     filter (\<lambda>j. spec_matches query prov (customers sys ! j)) [0..<length (customers sys)]"
  by (simp add: findCustomers_def findCustomers_loop_eq enumerate_filter)

lemma map_nth_filter_upt:
  "map ((!) xs) (filter (\<lambda>j. P (xs ! j)) [0..<length xs]) = filter P xs"
proof -
  have "map ((!) xs) (filter (\<lambda>j. P (xs ! j)) [0..<length xs]) =
        filter P (map ((!) xs) [0..<length xs])"
    by (simp add: filter_map comp_def)
  then show ?thesis by (simp add: map_nth)
qed

lemma digits_chars: "set (digits n) \<subseteq> set ''0123456789''"
proof (induction n rule: digits.induct)
  case (1 n)
  have d: "''0123456789'' ! k \<in> set ''0123456789''" if "k < 10" for k
    using that by (intro nth_mem) simp
  show ?case
  proof (cases "n < 10")
    case True
    then show ?thesis
      using d [of n] by (subst digits.simps) simp
  next
    case False
    have "n mod 10 < 10" by simp
    from d [OF this] "1" [OF False] False show ?thesis
      by (subst digits.simps) simp
  qed
qed

lemma to_string_chars: "set (to_string i) \<subseteq> insert CHR ''-'' (set ''0123456789'')"
proof (cases "i < 0")
  case True
  then have "set (to_string i) = insert CHR ''-'' (set (digits (nat (- i))))"
    by (simp add: to_string_def)
  with digits_chars [of "nat (- i)"] show ?thesis by blast
next
  case False
  then have "set (to_string i) = set (digits (nat i))"
    by (simp add: to_string_def)
  with digits_chars [of "nat i"] show ?thesis by blast
qed

lemma sublist_set: "sublist q s \<Longrightarrow> set q \<subseteq> set s"
  by (auto simp: sublist_def)

lemma Smith_not_in_id: "\<not> sublist ''Smith'' (to_string i)"
proof
  assume "sublist ''Smith'' (to_string i)"
  then have "set ''Smith'' \<subseteq> set (to_string i)" by (rule sublist_set)
  then have "CHR ''S'' \<in> set (to_string i)" by simp
  with to_string_chars [of i] have "CHR ''S'' \<in> insert CHR ''-'' (set ''0123456789'')"
    by (rule subsetD)
  then show False by simp
qed















section \<open>Claims\<close>




text \<open>
  C2. Payment contract. \<open>makePayment i amt\<close> returns true exactly when \<open>i\<close> is the
  index of a bill and \<open>amt\<close> is at least the amount of that bill. Then bill \<open>i\<close> is
  paid and the reminder latch is clear, whatever bill was paid; the amount and the date
  of bill \<open>i\<close>, every other bill and every other field of the customer are as
  before. When it returns false the customer is as before, so a bill that was unpaid
  stays unpaid.
\<close>

theorem C2_payment_contract:
  "(fst (makePayment i amt c) \<longleftrightarrow>
      0 \<le> i \<and> i < int (length (payments c)) \<and> amt \<ge> amount (payments c ! nat i))
   \<and> (fst (makePayment i amt c) \<longrightarrow>
        isPaid (payments (snd (makePayment i amt c)) ! nat i)
        \<and> \<not> reminderSent (snd (makePayment i amt c))
        \<and> length (payments (snd (makePayment i amt c))) = length (payments c)
        \<and> (\<forall>j < length (payments c). j \<noteq> nat i \<longrightarrow>
              payments (snd (makePayment i amt c)) ! j = payments c ! j)
        \<and> amount (payments (snd (makePayment i amt c)) ! nat i) = amount (payments c ! nat i)
        \<and> date (payments (snd (makePayment i amt c)) ! nat i) = date (payments c ! nat i)
        \<and> (snd (makePayment i amt c))\<lparr>payments := payments c, reminderSent := reminderSent c\<rparr> = c)
   \<and> (\<not> fst (makePayment i amt c) \<longrightarrow> snd (makePayment i amt c) = c)
   \<and> (\<not> fst (makePayment i amt c) \<and> 0 \<le> i \<and> i < int (length (payments c))
        \<and> \<not> isPaid (payments c ! nat i) \<longrightarrow>
        \<not> isPaid (payments (snd (makePayment i amt c)) ! nat i))"
proof (intro conjI impI)
  show "\<not> isPaid (payments (snd (makePayment i amt c)) ! nat i)"
    if "\<not> fst (makePayment i amt c) \<and> 0 \<le> i \<and> i < int (length (payments c))
        \<and> \<not> isPaid (payments c ! nat i)"
    using that by (simp add: makePayment_fail)
  show "fst (makePayment i amt c) \<longleftrightarrow>
      0 \<le> i \<and> i < int (length (payments c)) \<and> amt \<ge> amount (payments c ! nat i)"
    by (rule makePayment_fst)
next
  assume "\<not> fst (makePayment i amt c)"
  then show "snd (makePayment i amt c) = c" by (rule makePayment_fail)
next
  assume ok: "fst (makePayment i amt c)"
  then have rng: "nat i < length (payments c)"
    unfolding makePayment_fst by linarith
  note eq = makePayment_ok [OF ok]
  show "isPaid (payments (snd (makePayment i amt c)) ! nat i)"
    using rng by (simp add: eq)
  show "\<not> reminderSent (snd (makePayment i amt c))"
    by (simp add: eq)
  show "length (payments (snd (makePayment i amt c))) = length (payments c)"
    by (simp add: eq)
  show "\<forall>j < length (payments c). j \<noteq> nat i \<longrightarrow>
              payments (snd (makePayment i amt c)) ! j = payments c ! j"
    by (simp add: eq)
  show "amount (payments (snd (makePayment i amt c)) ! nat i) = amount (payments c ! nat i)"
    using rng by (simp add: eq)
  show "date (payments (snd (makePayment i amt c)) ! nat i) = date (payments c ! nat i)"
    using rng by (simp add: eq)
  show "(snd (makePayment i amt c))\<lparr>payments := payments c, reminderSent := reminderSent c\<rparr> = c"
    by (simp add: eq)
qed

theorem C2_payment_contract_witness:
  "fst (makePayment 0 54 example_billed)
   \<and> isPaid (payments (snd (makePayment 0 54 example_billed)) ! 0)
   \<and> \<not> reminderSent (snd (makePayment 0 54 example_billed))
   \<and> \<not> fst (makePayment 0 53 example_billed)
   \<and> snd (makePayment 0 53 example_billed) = example_billed
   \<and> \<not> isPaid (payments example_billed ! nat 0)
   \<and> \<not> isPaid (payments (snd (makePayment 0 53 example_billed)) ! nat 0)
   \<and> \<not> fst (makePayment 1 54 example_billed)
   \<and> \<not> fst (makePayment (- 1) 54 example_billed)
   \<and> fst (makePayment 0 54 example_two_bills)
   \<and> 1 < length (payments example_two_bills) \<and> 1 \<noteq> nat 0
   \<and> payments (snd (makePayment 0 54 example_two_bills)) ! 1 = payments example_two_bills ! 1"
proof -
  have one: "fst (makePayment 0 54 example_billed)
   \<and> isPaid (payments (snd (makePayment 0 54 example_billed)) ! 0)
   \<and> \<not> reminderSent (snd (makePayment 0 54 example_billed))
   \<and> \<not> fst (makePayment 0 53 example_billed)
   \<and> snd (makePayment 0 53 example_billed) = example_billed
   \<and> \<not> isPaid (payments example_billed ! nat 0)
   \<and> \<not> isPaid (payments (snd (makePayment 0 53 example_billed)) ! nat 0)
   \<and> \<not> fst (makePayment 1 54 example_billed)
   \<and> \<not> fst (makePayment (- 1) 54 example_billed)"
    using C2_payment_contract [of 0 54 example_billed]
      C2_payment_contract [of 0 53 example_billed]
      C2_payment_contract [of 1 54 example_billed]
      C2_payment_contract [of "- 1" 54 example_billed]
    by (simp add: example_billed_eq example_customer_def new_Customer_def example_bill_def)
  have ps: "payments example_two_bills = [example_bill 1000, example_bill 2000]"
    by (simp add: example_two_bills_eq)
  note T = C2_payment_contract [of 0 54 example_two_bills]
  have ok: "fst (makePayment 0 54 example_two_bills)"
    by (rule T [THEN conjunct1, THEN iffD2]) (simp add: ps example_bill_def)
  have l: "1 < length (payments example_two_bills)" and n: "1 \<noteq> nat 0"
    by (simp_all add: ps)
  from T [THEN conjunct2, THEN conjunct1, THEN mp, OF ok]
  have "\<forall>j < length (payments example_two_bills). j \<noteq> nat 0 \<longrightarrow>
          payments (snd (makePayment 0 54 example_two_bills)) ! j = payments example_two_bills ! j"
    by blast
  with l n have "payments (snd (makePayment 0 54 example_two_bills)) ! 1
      = payments example_two_bills ! 1"
    by blast
  with one ok l n show ?thesis by blast
qed

text \<open>
  C3. Overdue threshold. At a time that is not before the date of the bill,
  \<open>isOverdue\<close> holds exactly when the bill is unpaid and the number of whole days
  since its date, the floor of the seconds divided by 86400, is greater than 30. A bill
  made now is not overdue; no bill is overdue exactly 30 days after its date; an unpaid
  bill is overdue 31 days after its date.
\<close>

theorem C3_overdue_threshold:
  "(date p \<le> now \<longrightarrow>
      (isOverdue now p \<longleftrightarrow> \<not> isPaid p \<and> \<lfloor>real_of_int (now - date p) / 86400\<rfloor> > 30))
   \<and> \<not> isOverdue now (new_Payment now amt)
   \<and> (now - date p = 30 * 86400 \<longrightarrow> \<not> isOverdue now p)
   \<and> (now - date p = 31 * 86400 \<and> \<not> isPaid p \<longrightarrow> isOverdue now p)"
proof (intro conjI impI)
  assume "date p \<le> now"
  then show "isOverdue now p \<longleftrightarrow> \<not> isPaid p \<and> \<lfloor>real_of_int (now - date p) / 86400\<rfloor> > 30"
    by (auto simp: isOverdue_def getDaysSince_floor)
next
  show "\<not> isOverdue now (new_Payment now amt)"
    by (simp add: isOverdue_def getDaysSince_def new_Payment_def)
next
  assume "now - date p = 30 * 86400"
  then show "\<not> isOverdue now p"
    by (simp add: isOverdue_def getDaysSince_def signed_divide_int_def)
next
  assume "now - date p = 31 * 86400 \<and> \<not> isPaid p"
  then show "isOverdue now p"
    by (simp add: isOverdue_def getDaysSince_def signed_divide_int_def)
qed

theorem C3_overdue_threshold_witness:
  "date (example_bill 1000) \<le> 1000 + 31 * 86400 + 5
   \<and> isOverdue (1000 + 31 * 86400 + 5) (example_bill 1000)
   \<and> \<not> isOverdue (1000 + 30 * 86400) (example_bill 1000)
   \<and> isOverdue (1000 + 31 * 86400) (example_bill 1000)"
  using C3_overdue_threshold [where p = "example_bill 1000" and now = "1000 + 31 * 86400 + 5"]
    C3_overdue_threshold [where p = "example_bill 1000" and now = "1000 + 30 * 86400"]
    C3_overdue_threshold [where p = "example_bill 1000" and now = "1000 + 31 * 86400"]
  by (simp add: example_bill_def)



text \<open>
  C5. Reminder contract and suppression. \<open>sendReminder\<close> returns a text that is not
  empty exactly when the customer has an overdue bill and the latch \<open>reminderSent\<close>
  is clear, where having an overdue bill means that some bill is overdue. Then it sets
  the latch, changes nothing else, and the text is the header, one line for every bill
  that is overdue now, in the order of the bills, with the amount of the bill and its
  days since the date minus 30, and the footer. Otherwise it returns the empty text and
  changes nothing. A call right after one that returned a text returns the empty text
  and changes nothing, at any time. After a payment that succeeded, a customer with an
  overdue bill gets a text again, once.
\<close>

theorem C5_reminder_contract:
  "(fst (sendReminder F now c) \<noteq> [] \<longleftrightarrow> hasOverdue now c \<and> \<not> reminderSent c)
   \<and> (hasOverdue now c \<longleftrightarrow> (\<exists>p \<in> set (payments c). isOverdue now p))
   \<and> (hasOverdue now c \<and> \<not> reminderSent c \<longrightarrow>
        snd (sendReminder F now c) = c\<lparr>reminderSent := True\<rparr>
        \<and> fst (sendReminder F now c) =
            reminderHeader c
            @ concat (map (\<lambda>p. ''Bill from '' @ strftime_Ymd F (date p)
                                 @ '' - Amount: $'' @ fixed_setprecision2 F (amount p)
                                 @ '' - '' @ to_string (getDaysSince now p - 30)
                                 @ '' days overdue\<newline>'')
                          (filter (isOverdue now) (payments c)))
            @ reminderFooter)
   \<and> (\<not> (hasOverdue now c \<and> \<not> reminderSent c) \<longrightarrow> sendReminder F now c = ([], c))
   \<and> (fst (sendReminder F now c) \<noteq> [] \<longrightarrow>
        sendReminder F now' (snd (sendReminder F now c)) = ([], snd (sendReminder F now c)))
   \<and> (fst (makePayment i amt c) \<and> hasOverdue now (snd (makePayment i amt c)) \<longrightarrow>
        fst (sendReminder F now (snd (makePayment i amt c))) \<noteq> []
        \<and> fst (sendReminder F now'
                 (snd (sendReminder F now (snd (makePayment i amt c))))) = [])"
proof (intro conjI impI)
  show "fst (sendReminder F now c) \<noteq> [] \<longleftrightarrow> hasOverdue now c \<and> \<not> reminderSent c"
    by (rule sendReminder_text_iff)
  show "hasOverdue now c \<longleftrightarrow> (\<exists>p \<in> set (payments c). isOverdue now p)"
    by (rule hasOverdue_iff)
  show "sendReminder F now c = ([], c)" if "\<not> (hasOverdue now c \<and> \<not> reminderSent c)"
    using that by (rule sendReminder_silent)
  show "sendReminder F now' (snd (sendReminder F now c)) = ([], snd (sendReminder F now c))"
    if "fst (sendReminder F now c) \<noteq> []"
    using that by (rule sendReminder_again)
next
  assume a: "hasOverdue now c \<and> \<not> reminderSent c"
  show "snd (sendReminder F now c) = c\<lparr>reminderSent := True\<rparr>"
    by (simp add: sendReminder_sent [OF a])
  have "reminderLine F now =
          (\<lambda>p. ''Bill from '' @ strftime_Ymd F (date p)
                @ '' - Amount: $'' @ fixed_setprecision2 F (amount p)
                @ '' - '' @ to_string (getDaysSince now p - 30) @ '' days overdue\<newline>'')"
    by (rule ext) (simp add: reminderLine_def formatDate_def)
  then show "fst (sendReminder F now c) =
            reminderHeader c
            @ concat (map (\<lambda>p. ''Bill from '' @ strftime_Ymd F (date p)
                                 @ '' - Amount: $'' @ fixed_setprecision2 F (amount p)
                                 @ '' - '' @ to_string (getDaysSince now p - 30)
                                 @ '' days overdue\<newline>'')
                          (filter (isOverdue now) (payments c)))
            @ reminderFooter"
    by (simp add: sendReminder_sent [OF a])
next
  assume a: "fst (makePayment i amt c) \<and> hasOverdue now (snd (makePayment i amt c))"
  then have "\<not> reminderSent (snd (makePayment i amt c))"
    by (simp add: makePayment_ok)
  with a have t: "fst (sendReminder F now (snd (makePayment i amt c))) \<noteq> []"
    by (simp add: sendReminder_text_iff)
  then show "fst (sendReminder F now (snd (makePayment i amt c))) \<noteq> []" .
  show "fst (sendReminder F now'
                 (snd (sendReminder F now (snd (makePayment i amt c))))) = []"
    by (simp add: sendReminder_again [OF t])
qed

theorem C5_reminder_contract_witness:
  "hasOverdue 3000000 example_two_bills \<and> \<not> reminderSent example_two_bills
   \<and> fst (sendReminder example_formatters 3000000 example_two_bills) =
       ''To: jsmith@email.com\<newline>Subject: Your energy payment is overdue\<newline>\<newline>''
       @ ''Hi John Smith,\<newline>\<newline>''
       @ ''Just a reminder that you have unpaid bills that are now overdue:\<newline>\<newline>''
       @ ''Bill from 1970-01-01 - Amount: $54.00 - 4 days overdue\<newline>''
       @ ''Bill from 1970-01-01 - Amount: $54.00 - 4 days overdue\<newline>''
       @ ''\<newline>Please pay ASAP to avoid service interruption.\<newline>\<newline>''
       @ ''Thanks,\<newline>Customer Service Team''
   \<and> reminderSent (snd (sendReminder example_formatters 3000000 example_two_bills))
   \<and> fst (sendReminder example_formatters 3000001
            (snd (sendReminder example_formatters 3000000 example_two_bills))) = []
   \<and> \<not> (hasOverdue 2000 example_two_bills \<and> \<not> reminderSent example_two_bills)
   \<and> fst (sendReminder example_formatters 2000 example_two_bills) = []
   \<and> fst (makePayment 0 54 example_two_bills)
   \<and> hasOverdue 3000000 (snd (makePayment 0 54 example_two_bills))
   \<and> fst (sendReminder example_formatters 3000000 (snd (makePayment 0 54 example_two_bills)))
       \<noteq> []"
proof -
  let ?F = example_formatters and ?c = example_two_bills
  have ov: "isOverdue 3000000 (example_bill 1000)" "isOverdue 3000000 (example_bill 2000)"
    "\<not> isOverdue 2000 (example_bill 1000)" "\<not> isOverdue 2000 (example_bill 2000)"
    by (simp_all add: isOverdue_def getDaysSince_def example_bill_def signed_divide_int_def)
  have d: "getDaysSince 3000000 (example_bill 1000) = 34"
    "getDaysSince 3000000 (example_bill 2000) = 34"
    by (simp_all add: getDaysSince_def example_bill_def signed_divide_int_def)
  have four: "to_string 4 = ''4''"
    by (simp add: to_string_def digits.simps)
  have ps: "payments ?c = [example_bill 1000, example_bill 2000]"
    by (simp add: example_two_bills_eq)
  have h: "hasOverdue 3000000 ?c \<and> \<not> reminderSent ?c"
    by (simp add: hasOverdue_def ps ov) (simp add: example_two_bills_eq example_customer_def
        new_Customer_def)
  have n: "\<not> (hasOverdue 2000 ?c \<and> \<not> reminderSent ?c)"
    by (simp add: hasOverdue_def ps ov)
  have p: "fst (makePayment 0 54 ?c)"
    by (simp add: makePayment_def ps example_bill_def)
  have po: "hasOverdue 3000000 (snd (makePayment 0 54 ?c))"
    by (simp add: makePayment_def ps hasOverdue_def ov)
  have lit: "reminderHeader ?c
            @ concat (map (\<lambda>p. ''Bill from '' @ strftime_Ymd ?F (date p)
                                 @ '' - Amount: $'' @ fixed_setprecision2 ?F (amount p)
                                 @ '' - '' @ to_string (getDaysSince 3000000 p - 30)
                                 @ '' days overdue\<newline>'')
                          (filter (isOverdue 3000000) (payments ?c)))
            @ reminderFooter =
       ''To: jsmith@email.com\<newline>Subject: Your energy payment is overdue\<newline>\<newline>''
       @ ''Hi John Smith,\<newline>\<newline>''
       @ ''Just a reminder that you have unpaid bills that are now overdue:\<newline>\<newline>''
       @ ''Bill from 1970-01-01 - Amount: $54.00 - 4 days overdue\<newline>''
       @ ''Bill from 1970-01-01 - Amount: $54.00 - 4 days overdue\<newline>''
       @ ''\<newline>Please pay ASAP to avoid service interruption.\<newline>\<newline>''
       @ ''Thanks,\<newline>Customer Service Team''"
    by (simp add: ps ov d four example_formatters_def reminderHeader_def reminderFooter_def)
      (simp add: example_two_bills_eq example_customer_def new_Customer_def)
  note T = C5_reminder_contract [of ?F 3000000 ?c 3000001 0 54]
  note T' = C5_reminder_contract [of ?F 2000 ?c 3000001 0 54]
  note T1 = T [THEN conjunct1]
  note T3 = T [THEN conjunct2, THEN conjunct2, THEN conjunct1]
  note T4 = T' [THEN conjunct2, THEN conjunct2, THEN conjunct2, THEN conjunct1]
  note T5 = T [THEN conjunct2, THEN conjunct2, THEN conjunct2, THEN conjunct2, THEN conjunct1]
  note T6 = T [THEN conjunct2, THEN conjunct2, THEN conjunct2, THEN conjunct2, THEN conjunct2]
  have sent: "snd (sendReminder ?F 3000000 ?c) = ?c\<lparr>reminderSent := True\<rparr>"
    by (rule T3 [THEN mp, OF h, THEN conjunct1])
  have body: "fst (sendReminder ?F 3000000 ?c) =
       ''To: jsmith@email.com\<newline>Subject: Your energy payment is overdue\<newline>\<newline>''
       @ ''Hi John Smith,\<newline>\<newline>''
       @ ''Just a reminder that you have unpaid bills that are now overdue:\<newline>\<newline>''
       @ ''Bill from 1970-01-01 - Amount: $54.00 - 4 days overdue\<newline>''
       @ ''Bill from 1970-01-01 - Amount: $54.00 - 4 days overdue\<newline>''
       @ ''\<newline>Please pay ASAP to avoid service interruption.\<newline>\<newline>''
       @ ''Thanks,\<newline>Customer Service Team''"
    by (rule trans [OF T3 [THEN mp, OF h, THEN conjunct2] lit])
  have nonempty: "fst (sendReminder ?F 3000000 ?c) \<noteq> []"
    by (rule T1 [THEN iffD2, OF h])
  have again: "fst (sendReminder ?F 3000001 (snd (sendReminder ?F 3000000 ?c))) = []"
    by (simp add: T5 [THEN mp, OF nonempty])
  have silent: "fst (sendReminder ?F 2000 ?c) = []"
    by (simp add: T4 [THEN mp, OF n])
  have re: "fst (sendReminder ?F 3000000 (snd (makePayment 0 54 ?c))) \<noteq> []"
    by (rule T6 [THEN mp, OF conjI [OF p po], THEN conjunct1])
  have latch: "reminderSent (snd (sendReminder ?F 3000000 ?c))"
    by (simp add: sent)
  from h n body latch again silent p po re show ?thesis by blast
qed

text \<open>
  C6. Billing cycle. \<open>doBilling\<close> keeps the number and the order of the customers.
  A customer with \<open>used > 0\<close> gets exactly one new bill, at the rate that the rate
  table holds for the energy type of the customer, and its \<open>used\<close> becomes 0. A
  customer with \<open>used \<le> 0\<close> is skipped: it gets no bill and is as before. So after
  the cycle no customer has \<open>used > 0\<close>, and \<open>used\<close> is 0 for every customer whose
  \<open>used\<close> was not negative. The province index and the trades are as before, and
  the older file computes the same customers.
\<close>

theorem C6_billing_cycle:
  "length (customers (doBilling now sys)) = length (customers sys)
   \<and> (\<forall>i < length (customers sys).
        (used (customers sys ! i) > 0 \<longrightarrow>
           customers (doBilling now sys) ! i =
             createBill now (fst (rates_index (rates sys) (energyType (customers sys ! i))))
               (customers sys ! i)
           \<and> payments (customers (doBilling now sys) ! i) =
               payments (customers sys ! i)
               @ [\<lparr>amount = used (customers sys ! i)
                             * fst (rates_index (rates sys) (energyType (customers sys ! i))),
                    date = now, isPaid = False\<rparr>]
           \<and> used (customers (doBilling now sys) ! i) = 0)
        \<and> (used (customers sys ! i) \<le> 0 \<longrightarrow>
             customers (doBilling now sys) ! i = customers sys ! i)
        \<and> used (customers (doBilling now sys) ! i) \<le> 0
        \<and> (used (customers sys ! i) \<ge> 0 \<longrightarrow> used (customers (doBilling now sys) ! i) = 0))
   \<and> provinces (doBilling now sys) = provinces sys
   \<and> trades (doBilling now sys) = trades sys
   \<and> customers (doBilling_v1 now sys) = customers (doBilling now sys)"
proof (intro conjI allI impI)
  show "length (customers (doBilling now sys)) = length (customers sys)"
    by (simp add: doBilling_customers)
  show "provinces (doBilling now sys) = provinces sys" "trades (doBilling now sys) = trades sys"
    by (simp_all add: doBilling_other)
  show "customers (doBilling_v1 now sys) = customers (doBilling now sys)"
    by (rule doBilling_v1_customers)
next
  fix i
  assume i: "i < length (customers sys)"
  let ?c = "customers sys ! i"
  have at: "customers (doBilling now sys) ! i =
      (if used ?c > 0 then createBill now (fst (rates_index (rates sys) (energyType ?c))) ?c
       else ?c)"
    using i by (simp add: doBilling_customers)
  {
    assume pos: "used ?c > 0"
    show "customers (doBilling now sys) ! i =
        createBill now (fst (rates_index (rates sys) (energyType ?c))) ?c"
      using pos by (simp add: at)
    show "payments (customers (doBilling now sys) ! i) =
        payments ?c @ [\<lparr>amount = used ?c * fst (rates_index (rates sys) (energyType ?c)),
                         date = now, isPaid = False\<rparr>]"
      using pos by (simp add: at createBill_def new_Payment_def)
    show "used (customers (doBilling now sys) ! i) = 0"
      using pos by (simp add: at createBill_def)
  }
  show "customers (doBilling now sys) ! i = ?c" if "used ?c \<le> 0"
    using that by (simp add: at)
  show "used (customers (doBilling now sys) ! i) \<le> 0"
    by (simp add: at createBill_def)
  show "used (customers (doBilling now sys) ! i) = 0" if "used ?c \<ge> 0"
    using that by (simp add: at createBill_def)
qed

theorem C6_billing_cycle_witness:
  "0 < length (customers example_system)
   \<and> used (customers example_system ! 0) > 0
   \<and> payments (customers (doBilling 1000 example_system) ! 0) =
        [\<lparr>amount = 54, date = 1000, isPaid = False\<rparr>]
   \<and> used (customers (doBilling 1000 example_system) ! 0) = 0
   \<and> 1 < length (customers example_system)
   \<and> used (customers example_system ! 1) \<le> 0
   \<and> customers (doBilling 1000 example_system) ! 1 = example_customer
   \<and> used (customers example_system ! 1) \<ge> 0
   \<and> used (customers (doBilling 1000 example_system) ! 1) = 0"
proof -
  have cs: "customers example_system = [snd (useEnergy 300 example_customer), example_customer]"
    by (simp add: example_system_def addCustomer_def new_EnergySystem_def Let_def)
  have r: "rates example_system = rates new_EnergySystem"
    by (simp add: example_system_def addCustomer_def Let_def)
  have u: "snd (useEnergy 300 example_customer) = example_customer\<lparr>used := 300\<rparr>"
    by (simp add: useEnergy_def fl_values example_customer_def new_Customer_def)
  have e: "energyType example_customer = SOLAR" "used example_customer = 0"
    "payments example_customer = []"
    by (simp_all add: example_customer_def new_Customer_def)
  have rate: "fst (rates_index (rates example_system) SOLAR) = 0.18"
    by (simp add: r new_EnergySystem_def rates_index_def)
  have l0: "0 < length (customers example_system)" and l1: "1 < length (customers example_system)"
    by (simp_all add: cs)
  note T0 = C6_billing_cycle [of 1000 example_system, THEN conjunct2, THEN conjunct1,
      rule_format, OF l0]
  note T1 = C6_billing_cycle [of 1000 example_system, THEN conjunct2, THEN conjunct1,
      rule_format, OF l1]
  have p0: "used (customers example_system ! 0) > 0"
    by (simp add: cs u)
  have p1: "used (customers example_system ! 1) \<le> 0"
    by (simp add: cs e)
  from T0 p0 have "payments (customers (doBilling 1000 example_system) ! 0) =
               payments (customers example_system ! 0)
               @ [\<lparr>amount = used (customers example_system ! 0)
                     * fst (rates_index (rates example_system)
                            (energyType (customers example_system ! 0))),
                    date = 1000, isPaid = False\<rparr>]"
    and z: "used (customers (doBilling 1000 example_system) ! 0) = 0"
    by blast+
  then have b: "payments (customers (doBilling 1000 example_system) ! 0) =
        [\<lparr>amount = 54, date = 1000, isPaid = False\<rparr>]"
    by (simp add: cs u e rate)
  from T1 p1 have s: "customers (doBilling 1000 example_system) ! 1 = example_customer"
    by (simp add: cs)
  have q1: "used (customers example_system ! 1) \<ge> 0"
    by (simp add: cs e)
  from T1 q1 have z1: "used (customers (doBilling 1000 example_system) ! 1) = 0"
    by blast
  from l0 l1 p0 p1 b z s q1 z1 show ?thesis by blast
qed


text \<open>
  The specification ends this property with "after the cycle every customer's used is 0". A
  customer whose usage was taken to -5 by \<open>useEnergy (- 5)\<close> is skipped by the cycle
  and keeps the usage of -5.
\<close>

theorem C6_billing_cycle_counterexample:
  "used (snd (useEnergy (- 5) example_customer)) = - 5
   \<and> customers negative_usage_system = [snd (useEnergy (- 5) example_customer)]
   \<and> used (customers (doBilling 1000 negative_usage_system) ! 0) = - 5"
  by (simp add: negative_usage_system_def addCustomer_def new_EnergySystem_def doBilling_def
      example_customer_def new_Customer_def useEnergy_def fl_values Let_def)

text \<open>
  C7. Search. \<open>findCustomers query prov\<close> returns the positions, in increasing
  order, of exactly the customers for which \<open>prov\<close> is empty or is the province of
  the customer, and \<open>query\<close> occurs in the decimal rendering of the ID, in the name
  or in the email; the customers at these positions are the matching customers in the
  order of insertion. \<open>findCustomers "Smith" ""\<close> returns exactly the customers
  whose name or email contains "Smith" (no decimal rendering does), and
  \<open>findCustomers "" "Ontario"\<close> returns exactly the customers of Ontario.
\<close>

theorem C7_search:
  "findCustomers query prov sys =
     filter (\<lambda>j. (prov = [] \<or> province (customers sys ! j) = prov)
                 \<and> (sublist query (to_string (cid (customers sys ! j)))
                    \<or> sublist query (name (customers sys ! j))
                    \<or> sublist query (email (customers sys ! j))))
       [0..<length (customers sys)]
   \<and> map ((!) (customers sys)) (findCustomers query prov sys) =
       filter (\<lambda>c. (prov = [] \<or> province c = prov)
                   \<and> (sublist query (to_string (cid c)) \<or> sublist query (name c)
                      \<or> sublist query (email c)))
         (customers sys)
   \<and> map ((!) (customers sys)) (findCustomers ''Smith'' [] sys) =
       filter (\<lambda>c. sublist ''Smith'' (name c) \<or> sublist ''Smith'' (email c)) (customers sys)
   \<and> map ((!) (customers sys)) (findCustomers [] ''Ontario'' sys) =
       filter (\<lambda>c. province c = ''Ontario'') (customers sys)"
proof (intro conjI)
  have m: "spec_matches query prov = (\<lambda>c. (prov = [] \<or> province c = prov)
                   \<and> (sublist query (to_string (cid c)) \<or> sublist query (name c)
                      \<or> sublist query (email c)))" for query prov
    by (rule ext) (simp add: spec_matches_def)
  show "findCustomers query prov sys =
     filter (\<lambda>j. (prov = [] \<or> province (customers sys ! j) = prov)
                 \<and> (sublist query (to_string (cid (customers sys ! j)))
                    \<or> sublist query (name (customers sys ! j))
                    \<or> sublist query (email (customers sys ! j))))
       [0..<length (customers sys)]"
    by (simp add: findCustomers_eq spec_matches_def)
  have all: "map ((!) (customers sys)) (findCustomers q p sys) = filter (spec_matches q p) (customers sys)"
    for q p
    unfolding findCustomers_eq by (rule map_nth_filter_upt)
  show "map ((!) (customers sys)) (findCustomers query prov sys) =
       filter (\<lambda>c. (prov = [] \<or> province c = prov)
                   \<and> (sublist query (to_string (cid c)) \<or> sublist query (name c)
                      \<or> sublist query (email c)))
         (customers sys)"
    by (simp add: all m)
  show "map ((!) (customers sys)) (findCustomers ''Smith'' [] sys) =
       filter (\<lambda>c. sublist ''Smith'' (name c) \<or> sublist ''Smith'' (email c)) (customers sys)"
    by (simp add: all m Smith_not_in_id)
  show "map ((!) (customers sys)) (findCustomers [] ''Ontario'' sys) =
       filter (\<lambda>c. province c = ''Ontario'') (customers sys)"
    by (simp add: all m)
qed


theorem C7_search_witness:
  "findCustomers ''Smith'' [] search_system = [0, 1]
   \<and> map name (map ((!) (customers search_system)) (findCustomers ''Smith'' [] search_system))
       = [''John Smith'', ''Jane Jones'']
   \<and> map name (map ((!) (customers search_system)) (findCustomers [] ''Ontario'' search_system))
       = [''John Smith'', ''Mike Brown'']
   \<and> findCustomers ''100'' ''Ontario'' search_system = [0, 2]"
proof -
  have ids: "to_string 1001 = ''1001''" "to_string 1002 = ''1002''" "to_string 1003 = ''1003''"
    by (simp_all add: to_string_def digits.simps)
  have cs: "customers search_system =
       [example_customer,
        new_Customer 1002 ''Jane Jones'' ''Quebec'' ''Smith@email.com''
          ''7 Walker Rd, Quebec'' NUCLEAR 400,
        new_Customer 1003 ''Mike Brown'' ''Ontario'' ''mbrown@email.com''
          ''3 Lauzon Rd, Ontario'' CRUDE_OIL 300]"
    by (simp add: search_system_def addCustomer_def new_EnergySystem_def Let_def)
  note T = C7_search [where sys = search_system]
  have a: "findCustomers ''Smith'' [] search_system = [0, 1]"
    by (subst T [where query = "''Smith''" and prov = "[]", THEN conjunct1])
      (simp add: cs example_customer_def new_Customer_def ids sublist_code upt_rec)
  have b: "findCustomers ''100'' ''Ontario'' search_system = [0, 2]"
    by (subst T [where query = "''100''" and prov = "''Ontario''", THEN conjunct1])
      (simp add: cs example_customer_def new_Customer_def ids sublist_code upt_rec)
  have c: "map ((!) (customers search_system)) (findCustomers [] ''Ontario'' search_system) =
       filter (\<lambda>c. province c = ''Ontario'') (customers search_system)"
    by (rule T [where query = "''100''" and prov = "''Ontario''",
          THEN conjunct2, THEN conjunct2, THEN conjunct2])
  show ?thesis
    by (simp add: a b c) (simp add: cs example_customer_def new_Customer_def)
qed


text \<open>
  The specification has \<open>findCustomers "Smith" ""\<close> return exactly the
  customers whose name contains "Smith". A customer named Jane Jones with the email
  \<^verbatim>\<open>Smith@email.com\<close> is returned too.
\<close>

theorem C7_search_counterexample:
  "findCustomers ''Smith'' [] smith_email_system = [0]
   \<and> name (customers smith_email_system ! 0) = ''Jane Jones''
   \<and> \<not> sublist ''Smith'' ''Jane Jones''"
proof -
  have "to_string 1002 = ''1002''"
    by (simp add: to_string_def digits.simps)
  then show ?thesis
    by (simp add: smith_email_system_def addCustomer_def new_EnergySystem_def Let_def
      new_Customer_def findCustomers_def sublist_code)
qed




text \<open>
  C9. No lower bound on usage. \<open>useEnergy\<close> accepts every amount that is at most the
  binary64 difference \<open>fl (allocated - used)\<close>. For a customer within the allocation,
  every negative amount is accepted: \<open>useEnergy\<close> returns true and stores the binary64
  sum \<open>fl (used + amt)\<close>, which is below the usage of before when the sum is exact; and
  some accepted negative amount takes \<open>used\<close> below 0. The older file computes the
  same.
\<close>

theorem C9_negative_usage_accepted:
  "(amt \<le> fl (allocated c - used c) \<longrightarrow> fst (useEnergy amt c))
   \<and> (used c \<le> allocated c \<and> amt < 0 \<longrightarrow>
        useEnergy amt c = (True, c\<lparr>used := fl (used c + amt)\<rparr>))
   \<and> (used c \<le> allocated c \<and> amt < 0 \<and> fl (used c + amt) = used c + amt \<longrightarrow>
        used (snd (useEnergy amt c)) < used c)
   \<and> (used c \<le> allocated c \<longrightarrow>
        (\<exists>a. a < 0 \<and> fst (useEnergy a c) \<and> used (snd (useEnergy a c)) < 0))
   \<and> useEnergy_v1 amt c = useEnergy amt c"
proof (intro conjI impI)
  show "useEnergy_v1 amt c = useEnergy amt c"
    by (rule useEnergy_v1_eq)
  show "fst (useEnergy amt c)" if "amt \<le> fl (allocated c - used c)"
    using that by (simp add: useEnergy_def)
  have acc: "useEnergy a c = (True, c\<lparr>used := fl (used c + a)\<rparr>)"
    if "used c \<le> allocated c" and "a < 0" for a
  proof -
    from that(1) have "0 \<le> fl (allocated c - used c)" by (simp add: fl_nonneg)
    with that(2) show ?thesis by (simp add: useEnergy_def)
  qed
  show "useEnergy amt c = (True, c\<lparr>used := fl (used c + amt)\<rparr>)"
    if "used c \<le> allocated c \<and> amt < 0"
    using that acc by blast
  show "used (snd (useEnergy amt c)) < used c"
    if "used c \<le> allocated c \<and> amt < 0 \<and> fl (used c + amt) = used c + amt"
    using that acc [of amt] by simp
  show "\<exists>a. a < 0 \<and> fst (useEnergy a c) \<and> used (snd (useEnergy a c)) < 0"
    if h: "used c \<le> allocated c"
  proof -
    let ?a = "- \<bar>used c\<bar> - 1"
    have n: "?a < 0" by simp
    have "used c + ?a \<le> - 1" by simp
    then have "fl (used c + ?a) < 0" by (rule fl_negative)
    with acc [OF h n] n have "?a < 0 \<and> fst (useEnergy ?a c) \<and> used (snd (useEnergy ?a c)) < 0"
      by simp
    then show ?thesis ..
  qed
qed

theorem C9_negative_usage_accepted_witness:
  "- 5 \<le> fl (allocated example_customer - used example_customer)
   \<and> fst (useEnergy (- 5) example_customer)
   \<and> used example_customer \<le> allocated example_customer \<and> (- 5 :: real) < 0
   \<and> useEnergy (- 5) example_customer
       = (True, example_customer\<lparr>used := fl (used example_customer + - 5)\<rparr>)
   \<and> fl (used example_customer + - 5) = used example_customer + - 5
   \<and> used (snd (useEnergy (- 5) example_customer)) < used example_customer
   \<and> used (snd (useEnergy (- 5) example_customer)) = - 5"
proof -
  have au: "allocated example_customer = 500" "used example_customer = 0"
    by (simp_all add: example_customer_def new_Customer_def)
  have l: "- 5 \<le> fl (allocated example_customer - used example_customer)"
    and h: "used example_customer \<le> allocated example_customer"
    and n: "(- 5 :: real) < 0"
    and e: "fl (used example_customer + - 5) = used example_customer + - 5"
    by (simp_all add: au fl_values)
  note T = C9_negative_usage_accepted [where c = example_customer and amt = "- 5"]
  from T l have 1: "fst (useEnergy (- 5) example_customer)" by blast
  from T h n have 2: "useEnergy (- 5) example_customer
       = (True, example_customer\<lparr>used := fl (used example_customer + - 5)\<rparr>)"
    by blast
  from T h n e have 3: "used (snd (useEnergy (- 5) example_customer)) < used example_customer"
    by blast
  from 2 have 4: "used (snd (useEnergy (- 5) example_customer)) = - 5"
    by (simp add: au fl_values)
  from l 1 h n 2 e 3 4 show ?thesis by blast
qed

text \<open>
  The specification has a negative amount accepted for every customer. A customer
  constructed with the allocation -10 has \<open>allocated - used = - 10\<close> and rejects the
  amount -5. So does, for the amount \<^verbatim>\<open>-1e-14\<close>, the customer of allocation 250.1
  whose usage the rounded sum of 50.3 and 199.8 has put above the allocation.
\<close>

theorem C9_negative_usage_accepted_counterexample:
  "(- 5 :: real) < 0
   \<and> useEnergy (- 5) negative_allocation_customer = (False, negative_allocation_customer)
   \<and> allocated rounded_customer < used rounded_customer
   \<and> fl (- 1 / 10 ^ 14) < 0
   \<and> \<not> fst (useEnergy (fl (- 1 / 10 ^ 14)) rounded_customer)"
  by code_simp

text \<open>
  C10. Paying a paid bill again. For a bill that is already paid, a payment of at least
  its amount returns true again; the bill stays paid, no bill changes, and the only
  change to the customer is that the reminder latch is cleared. There is no guard
  against it, so a customer with an overdue bill gets the next reminder right after
  such a payment. The older file computes the same.
\<close>

theorem C10_repay_paid_bill:
  assumes "0 \<le> i" and "i < int (length (payments c))"
    and "isPaid (payments c ! nat i)" and "amt \<ge> amount (payments c ! nat i)"
  shows "fst (makePayment i amt c)
       \<and> payments (snd (makePayment i amt c)) = payments c
       \<and> snd (makePayment i amt c) = c\<lparr>reminderSent := False\<rparr>
       \<and> (hasOverdue now c \<longrightarrow> fst (sendReminder F now (snd (makePayment i amt c))) \<noteq> [])
       \<and> makePayment_v1 i amt c = makePayment i amt c"
proof -
  have ok: "fst (makePayment i amt c)"
    using assms by (simp add: makePayment_fst)
  have same: "(payments c)[nat i := (payments c ! nat i)\<lparr>isPaid := True\<rparr>] = payments c"
    using assms(3) by (simp add: isPaid_update_id)
  have eq: "snd (makePayment i amt c) = c\<lparr>reminderSent := False\<rparr>"
    by (simp add: makePayment_ok [OF ok] same)
  have "fst (sendReminder F now (c\<lparr>reminderSent := False\<rparr>)) \<noteq> []" if "hasOverdue now c"
    using that by (simp add: sendReminder_text_iff hasOverdue_def)
  with ok eq show ?thesis by (simp add: makePayment_v1_eq)
qed

theorem C10_repay_paid_bill_witness:
  "(0::int) \<le> 0 \<and> 0 < int (length (payments example_paid_latched))
   \<and> isPaid (payments example_paid_latched ! nat 0)
   \<and> 60 \<ge> amount (payments example_paid_latched ! nat 0)
   \<and> reminderSent example_paid_latched
   \<and> fst (makePayment 0 60 example_paid_latched)
   \<and> payments (snd (makePayment 0 60 example_paid_latched)) = payments example_paid_latched
   \<and> \<not> reminderSent (snd (makePayment 0 60 example_paid_latched))
   \<and> hasOverdue 3000000 example_paid_latched
   \<and> fst (sendReminder example_formatters 3000000 (snd (makePayment 0 60 example_paid_latched)))
       \<noteq> []"
proof -
  let ?c = example_paid_latched
  have ps: "payments ?c = [(example_bill 1000)\<lparr>isPaid := True\<rparr>, example_bill 2000]"
    and l: "reminderSent ?c"
    by (simp_all add: example_paid_latched_eq)
  have h1: "(0::int) \<le> 0" by simp
  have h2: "0 < int (length (payments ?c))" by (simp add: ps)
  have h3: "isPaid (payments ?c ! nat 0)" by (simp add: ps)
  have h4: "60 \<ge> amount (payments ?c ! nat 0)" by (simp add: ps example_bill_def)
  have h5: "hasOverdue 3000000 ?c"
    by (simp add: ps hasOverdue_def isOverdue_def getDaysSince_def example_bill_def
        signed_divide_int_def)
  note T = C10_repay_paid_bill [OF h1 h2 h3 h4, of 3000000 example_formatters]
  from T have "\<not> reminderSent (snd (makePayment 0 60 ?c))" by simp
  with T h1 h2 h3 h4 h5 l show ?thesis by blast
qed

end
